theory Spec2Isabelle
  imports Main
begin

section \<open>The manager client adapter: \<open>lxf/lxo/container.go\<close>\<close>

subsection \<open>Data\<close>

text \<open>
  A Go \<open>error\<close> is observed by \<open>StopContainer\<close> only through \<open>err == nil\<close> and the text
  of \<open>err.Error()\<close>, so an error is its message and \<open>nil\<close> is \<open>None\<close>.
\<close>

type_synonym error = string

text \<open>\<open>api.ContainerStatePut\<close>, with the three fields the adapter sets.\<close>

record ContainerStatePut =
  Action :: string
  Timeout :: int
  Force :: bool

text \<open>
  The container manager behind \<open>l.server\<close> is an external service. It is a pair of
  operations over a manager state \<open>'s\<close> (anything the manager remembers between calls):
  \<open>UpdateContainerState id req etag\<close> answers with an error or an operation handle
  \<open>'op\<close>, and \<open>Wait op\<close> blocks until the operation is done and answers \<open>nil\<close> or an
  error. Every theorem below holds for every such manager.
\<close>

record ('s, 'op) ContainerServer =
  UpdateContainerState :: "string \<Rightarrow> ContainerStatePut \<Rightarrow> string \<Rightarrow> 's \<Rightarrow> (error + 'op) \<times> 's"
  Wait :: "'op \<Rightarrow> 's \<Rightarrow> error option \<times> 's"

subsection \<open>StopContainer\<close>

text \<open>
  The loop \<open>for i := 1; i <= retries; i++\<close> with its local \<open>lastErr\<close>; the state of
  the manager is passed along. \<open>ETag\<close> is the empty string throughout. Every \<open>return\<close>
  of the source is a branch: \<open>nil\<close> on \<open>not found\<close> (line 25), the wrapped error of
  \<open>fmt.Errorf\<close> (line 27), \<open>nil\<close> on an operation that reports the container already
  stopped (line 32), and \<open>lastErr\<close> after the loop (line 37). The counter takes the
  values \<open>1 .. retries + 1\<close> only, so it stays a machine \<open>int\<close> for every \<open>retries\<close>
  below the largest one, and Go's \<open>int\<close> is modelled by \<open>int\<close>.
\<close>

function StopContainer_loop ::
  "('s, 'op) ContainerServer \<Rightarrow> string \<Rightarrow> int \<Rightarrow> int \<Rightarrow> int \<Rightarrow> error option \<Rightarrow> 's
     \<Rightarrow> error option \<times> 's" where
  "StopContainer_loop server ident timeout retries i lastErr s =
     (if i \<le> retries then
        (let lxdReq = \<lparr>Action = ''stop'', Timeout = timeout, Force = (i = retries)\<rparr> in
         case UpdateContainerState server ident lxdReq '''' s of
           (Inl err, s1) \<Rightarrow>
             if err = ''not found'' then (None, s1)
             else (Some (''failed to stop container '' @ ident @ '', '' @ err), s1)
         | (Inr op, s1) \<Rightarrow>
             (case Wait server op s1 of
                (err, s2) \<Rightarrow>
                  if err = Some ''The container is already stopped'' then (None, s2)
                  else StopContainer_loop server ident timeout retries (i + 1) err s2))
      else (lastErr, s))"
  by pat_completeness auto
termination
  by (relation "measure (\<lambda>(server, ident, timeout, retries, i, lastErr, s). nat (retries + 1 - i))")
     auto

declare StopContainer_loop.simps [simp del]

definition StopContainer ::
  "('s, 'op) ContainerServer \<Rightarrow> string \<Rightarrow> int \<Rightarrow> int \<Rightarrow> 's \<Rightarrow> error option \<times> 's" where
  "StopContainer server ident timeout retries s =
     StopContainer_loop server ident timeout retries 1 None s"

subsection \<open>Observing the manager\<close>

text \<open>
  What \<open>StopContainer\<close> asks of the manager is observed the way the repository's tests
  observe a fake: the manager is wrapped in a recorder that appends every call, with its
  arguments and its answer, to a log kept beside the manager state.
\<close>

datatype 'op call =
  Submitted string ContainerStatePut string "error + 'op"
| Awaited 'op "error option"

definition recording ::
  "('s, 'op) ContainerServer \<Rightarrow> ('s \<times> 'op call list, 'op) ContainerServer" where
  "recording server =
     \<lparr>UpdateContainerState = (\<lambda>ident req etag (s, log).
        case UpdateContainerState server ident req etag s of
          (r, s1) \<Rightarrow> (r, (s1, log @ [Submitted ident req etag r]))),
      Wait = (\<lambda>op (s, log).
        case Wait server op s of
          (e, s1) \<Rightarrow> (e, (s1, log @ [Awaited op e])))\<rparr>"

text \<open>
  Projections of a log: the stop requests submitted, the operation handles the manager
  gave out, the handles that were awaited, and the answers of the waits.
\<close>

fun requests :: "'op call list \<Rightarrow> (string \<times> ContainerStatePut \<times> string) list" where
  "requests [] = []"
| "requests (Submitted ident req etag r # cs) = (ident, req, etag) # requests cs"
| "requests (Awaited op e # cs) = requests cs"

fun handles :: "'op call list \<Rightarrow> 'op list" where
  "handles [] = []"
| "handles (Submitted ident req etag (Inr op) # cs) = op # handles cs"
| "handles (Submitted ident req etag (Inl e) # cs) = handles cs"
| "handles (Awaited op e # cs) = handles cs"

fun awaited :: "'op call list \<Rightarrow> 'op list" where
  "awaited [] = []"
| "awaited (Submitted ident req etag r # cs) = awaited cs"
| "awaited (Awaited op e # cs) = op # awaited cs"

fun outcomes :: "'op call list \<Rightarrow> error option list" where
  "outcomes [] = []"
| "outcomes (Submitted ident req etag r # cs) = outcomes cs"
| "outcomes (Awaited op e # cs) = e # outcomes cs"

text \<open>
  Three kinds of answer are singled out: a submission refused with the error whose
  text is \<open>not found\<close>; a wait answered with \<open>The container is already stopped\<close>; and
  an answer that lets the attempt complete with an ordinary error (the request was accepted;
  the wait gave an error that is neither of the two).
\<close>

fun not_found :: "'op call \<Rightarrow> bool" where
  "not_found (Submitted ident req etag (Inl e)) = (e = ''not found'')"
| "not_found (Submitted ident req etag (Inr op)) = False"
| "not_found (Awaited op e) = False"

fun already_stopped :: "'op call \<Rightarrow> bool" where
  "already_stopped (Awaited op e) = (e = Some ''The container is already stopped'')"
| "already_stopped (Submitted ident req etag r) = False"

fun failed_attempt :: "'op call \<Rightarrow> bool" where
  "failed_attempt (Submitted ident req etag (Inl e)) = False"
| "failed_attempt (Submitted ident req etag (Inr op)) = True"
| "failed_attempt (Awaited op None) = False"
| "failed_attempt (Awaited op (Some e)) =
     (e \<noteq> ''not found'' \<and> e \<noteq> ''The container is already stopped'')"

text \<open>The request of attempt \<open>i\<close>: lines 17 to 21 of \<open>container.go\<close>.\<close>

definition stop_request :: "int \<Rightarrow> int \<Rightarrow> int \<Rightarrow> ContainerStatePut" where
  "stop_request timeout retries i = \<lparr>Action = ''stop'', Timeout = timeout, Force = (i = retries)\<rparr>"

text \<open>
  The shapes a log of \<open>StopContainer\<close> can have, from attempt \<open>i\<close> on, with the error
  returned: the attempts are used up; the submission is refused; the wait reports that the
  container is already stopped; or the attempt completes otherwise and the next one follows.
\<close>

inductive stop_trace ::
  "string \<Rightarrow> int \<Rightarrow> int \<Rightarrow> int \<Rightarrow> error option \<Rightarrow> 'op call list \<Rightarrow> error option \<Rightarrow> bool"
  for ident :: string and timeout :: int and retries :: int where
  exhausted: "retries < i \<Longrightarrow> stop_trace ident timeout retries i lastErr [] lastErr"
| refused: "i \<le> retries \<Longrightarrow>
     stop_trace ident timeout retries i lastErr
       [Submitted ident (stop_request timeout retries i) '''' (Inl err)]
       (if err = ''not found'' then None
        else Some (''failed to stop container '' @ ident @ '', '' @ err))"
| stopped: "i \<le> retries \<Longrightarrow>
     stop_trace ident timeout retries i lastErr
       [Submitted ident (stop_request timeout retries i) '''' (Inr op),
        Awaited op (Some ''The container is already stopped'')] None"
| again: "i \<le> retries \<Longrightarrow> err \<noteq> Some ''The container is already stopped'' \<Longrightarrow>
     stop_trace ident timeout retries (i + 1) err new r \<Longrightarrow>
     stop_trace ident timeout retries i lastErr
       (Submitted ident (stop_request timeout retries i) '''' (Inr op) # Awaited op err # new) r"

subsection \<open>A scripted manager\<close>

text \<open>
  A fake manager for concrete runs: it answers the submissions from a script, one entry
  each. An entry is the error of a refused submission or, for an accepted one, the outcome
  its operation will report when awaited (the handle carries that outcome). When the script
  is used up the container is gone.
\<close>

definition scripted :: "((error + error option) list, error option) ContainerServer" where
  "scripted =
     \<lparr>UpdateContainerState = (\<lambda>ident req etag script.
        case script of
          [] \<Rightarrow> (Inl ''not found'', [])
        | answer # rest \<Rightarrow> (answer, rest)),
      Wait = (\<lambda>op script. (op, script))\<rparr>"

subsection \<open>A manager that keeps containers\<close>

text \<open>
  A second fake manager, with the state a container manager has: the containers it keeps,
  each running or stopped. A running container may stop on any stop request
  (\<open>Running\<close>), only when forced (\<open>Stubborn\<close>), or not at all (\<open>Stuck\<close>). A submission
  for a container that is not kept is refused with \<open>not found\<close>; otherwise the handle is
  the container and the request, and the work is done when the handle is awaited.
\<close>

datatype container = Running | Stubborn | Stuck | Stopped

fun put_status :: "string \<Rightarrow> container \<Rightarrow> (string \<times> container) list \<Rightarrow> (string \<times> container) list" where
  "put_status ident c [] = []"
| "put_status ident c ((k, v) # rest) =
     (if k = ident then (k, c) # rest else (k, v) # put_status ident c rest)"

fun stop_container ::
  "string \<Rightarrow> ContainerStatePut \<Rightarrow> container \<Rightarrow> (string \<times> container) list
     \<Rightarrow> error option \<times> (string \<times> container) list" where
  "stop_container ident req Stopped cs = (Some ''The container is already stopped'', cs)"
| "stop_container ident req Running cs = (None, put_status ident Stopped cs)"
| "stop_container ident req Stubborn cs =
     (if Force req then (None, put_status ident Stopped cs)
      else (Some ''timed out waiting for the container to stop'', cs))"
| "stop_container ident req Stuck cs = (Some ''failed to stop the container'', cs)"

definition keeping ::
  "((string \<times> container) list, string \<times> ContainerStatePut) ContainerServer" where
  "keeping =
     \<lparr>UpdateContainerState = (\<lambda>ident req etag cs.
        case map_of cs ident of
          None \<Rightarrow> (Inl ''not found'', cs)
        | Some c \<Rightarrow> (Inr (ident, req), cs)),
      Wait = (\<lambda>(ident, req) cs.
        case map_of cs ident of
          None \<Rightarrow> (Some ''not found'', cs)
        | Some c \<Rightarrow>
            if Action req = ''stop'' then stop_container ident req c cs
            else (Some ''unknown action'', cs))\<rparr>"

definition at_rest :: "string \<Rightarrow> (string \<times> container) list \<Rightarrow> bool" where
  "at_rest ident cs = (case map_of cs ident of None \<Rightarrow> True | Some c \<Rightarrow> c = Stopped)"

text \<open>
  A manager reports the state of container \<open>ident\<close> consistently, \<open>down\<close> being the
  manager states in which the container is stopped or absent, when: a submission it
  refuses with \<open>not found\<close> leaves the container down; a stop operation whose wait
  answers \<open>nil\<close> or \<open>The container is already stopped\<close> leaves the container down; and a
  stop request for a container that is down is refused with \<open>not found\<close> or accepted with
  an operation whose wait answers \<open>The container is already stopped\<close>.
\<close>

definition reports_state :: "('s, 'op) ContainerServer \<Rightarrow> string \<Rightarrow> ('s \<Rightarrow> bool) \<Rightarrow> bool" where
  "reports_state server ident down \<longleftrightarrow>
     (\<forall>req etag s s1.
        UpdateContainerState server ident req etag s = (Inl ''not found'', s1) \<longrightarrow> down s1) \<and>
     (\<forall>req etag s op s1 e s2.
        Action req = ''stop'' \<and>
        UpdateContainerState server ident req etag s = (Inr op, s1) \<and>
        Wait server op s1 = (e, s2) \<and>
        (e = None \<or> e = Some ''The container is already stopped'') \<longrightarrow> down s2) \<and>
     (\<forall>req etag s r s1.
        down s \<and> Action req = ''stop'' \<and>
        UpdateContainerState server ident req etag s = (r, s1) \<longrightarrow>
        (case r of
           Inl err \<Rightarrow> err = ''not found''
         | Inr op \<Rightarrow> fst (Wait server op s1) = Some ''The container is already stopped''))"

section \<open>The network plugin: \<open>network/cni.go\<close>\<close>

text \<open>
  The sources hold the tests of the CNI network plugin (\<open>package network\<close>, from
  \<open>fakeCNIFiles\<close> to \<open>Test_cniContainerNetwork_WhenDeleted\<close>) but not the file they test.
  The definitions of this section are therefore modelled from the specification, section
  4.B, and named and shaped after the calls the tests make; each says what it stands for.
  Where a test in the sources fixes the behaviour at an input, the model agrees with the
  test.
\<close>

subsection \<open>Parsing and printing addresses\<close>












subsection \<open>CNI results and properties\<close>

text \<open>
  Modelled from the spec: the CNI result object of "Accepts CNI spec v0.4.0 result
  objects" (the missing part is \<open>current.Result\<close> and its JSON form). An entry of \<open>ips\<close>
  keeps its \<open>address\<close> as the text found there, absent when the entry has no such key
  (as in \<open>Test_cniPodNetwork_ips_Missing\<close>). The interface list holds the names of
  the interfaces. The JSON coding itself is not modelled: a stored result is the decoded
  object.
\<close>

record IPConfig =
  address :: "string option"

record CNIResult =
  CNIVersion :: string
  ResultIPs :: "IPConfig list"
  Interfaces :: "string list"





text \<open>
  Modelled from the spec: the runtime-conf template of the "CNI Pod Network" (the missing
  part is \<open>libcni.RuntimeConf\<close>), with the four fields the test
  \<open>Test_cniPlugin_getCNIRuntimeConf\<close> compares.
\<close>

record RuntimeConf =
  ContainerID :: string
  NetNS :: string
  IfName :: string
  Args :: "(string \<times> string) list"

text \<open>
  Modelled from the spec: the resolved network list and the CNI library the plugin calls
  (the missing part is \<open>libcni\<close>; the tests put a fake in its place, whose \<open>AddNetworkList\<close>
  returns what the test sets). Only the ADD call is needed here.
\<close>

record NetworkConfigList =
  Name :: string

record CNI =
  AddNetworkList :: "NetworkConfigList option \<Rightarrow> RuntimeConf \<Rightarrow> error + CNIResult"

text \<open>
  Modelled from the spec: the plugin, the pod network and the container network (the
  missing part is the declaration of \<open>cniPlugin\<close>, \<open>cniPodNetwork\<close> and
  \<open>cniContainerNetwork\<close>; the fields are those the tests set).
\<close>

record ConfCNI =
  BinPath :: string
  ConfPath :: string
  NetnsPath :: string

record cniPlugin =
  cni :: CNI
  conf :: ConfCNI

record cniPodNetwork =
  plugin :: cniPlugin
  netList :: "NetworkConfigList option"
  runtimeConf :: RuntimeConf


subsection \<open>Operations\<close>

text \<open>
  Modelled from the spec: \<open>DefaultInterface\<close> (the missing part is the constant), from
  "interface name = eth0 by default".
\<close>

definition DefaultInterface :: string where
  "DefaultInterface = ''eth0''"

text \<open>
  Modelled from the spec: \<open>getCNIRuntimeConf\<close> (the missing part is the method of
  \<open>cniPlugin\<close>), from "a runtime-conf template with container ID = podID, interface name
  = eth0 by default, and empty netns (filled per action)".
\<close>

definition getCNIRuntimeConf :: "cniPlugin \<Rightarrow> string \<Rightarrow> RuntimeConf" where
  "getCNIRuntimeConf p podID =
     \<lparr>ContainerID = podID, NetNS = '''', IfName = DefaultInterface, Args = []\<rparr>"

text \<open>
  Modelled from the spec: \<open>PodNetwork\<close> (the missing part is the method of \<open>cniPlugin\<close>),
  from "resolves the network list once; caches a runtime-conf template". Resolving the
  list reads the configuration directory; its outcome is the first argument. The extra
  arguments of the pod are the template's extra args.
\<close>

definition PodNetwork ::
  "error + NetworkConfigList \<Rightarrow> cniPlugin \<Rightarrow> string \<Rightarrow> (string \<times> string) list
     \<Rightarrow> error + cniPodNetwork" where
  "PodNetwork getCNINetworkConfig p podID extraArgs =
     (case getCNINetworkConfig of
        Inl err \<Rightarrow> Inl err
      | Inr resolved \<Rightarrow>
          Inr \<lparr>plugin = p, netList = Some resolved,
               runtimeConf = (getCNIRuntimeConf p podID)\<lparr>Args := extraArgs\<rparr>\<rparr>)"

text \<open>
  Modelled from the spec: \<open>UpdateRuntimeConfig\<close> (the missing part is the method of
  \<open>cniPlugin\<close>), from "if the chosen plugin cannot accept a dynamic CIDR, fails cleanly"
  and "this spec chooses hard error". The CNI plugin is the plugin of the repository, and
  it has no way to take a pod CIDR: \<open>Test_cniPlugin_UpdateRuntimeConfig\<close> expects an
  error for \<open>nil\<close>. The argument is absent (\<open>nil\<close>) or the CIDR text.
\<close>

definition UpdateRuntimeConfig :: "cniPlugin \<Rightarrow> string option \<Rightarrow> error option" where
  "UpdateRuntimeConfig p podCIDR = Some ''not implemented''"







subsection \<open>The fixtures of the tests\<close>






section \<open>Properties of StopContainer\<close>

subsection \<open>One turn of the loop, and the shape of the log\<close>

lemma loop_recording_unfold:
  "StopContainer_loop (recording server) ident timeout retries i lastErr (s, log0) =
     (if i \<le> retries then
        (case UpdateContainerState server ident (stop_request timeout retries i) '''' s of
           (Inl err, s1) \<Rightarrow>
             (if err = ''not found'' then None
              else Some (''failed to stop container '' @ ident @ '', '' @ err),
              (s1, log0 @ [Submitted ident (stop_request timeout retries i) '''' (Inl err)]))
         | (Inr op, s1) \<Rightarrow>
             (case Wait server op s1 of
                (err, s2) \<Rightarrow>
                  if err = Some ''The container is already stopped''
                  then (None, (s2, log0 @
                     [Submitted ident (stop_request timeout retries i) '''' (Inr op),
                      Awaited op err]))
                  else StopContainer_loop (recording server) ident timeout retries (i + 1) err
                         (s2, log0 @
                     [Submitted ident (stop_request timeout retries i) '''' (Inr op),
                      Awaited op err])))
      else (lastErr, (s, log0)))"
  by (subst StopContainer_loop.simps)
     (simp add: recording_def stop_request_def Let_def split: prod.splits sum.splits)

lemma loop_trace:
  "StopContainer_loop (recording server) ident timeout retries i lastErr (s, log0) = (r, (s', log))
   \<Longrightarrow> \<exists>new. log = log0 @ new \<and> stop_trace ident timeout retries i lastErr new r"
proof (induction "nat (retries + 1 - i)" arbitrary: i lastErr s log0)
  case 0
  then have gt: "retries < i" by linarith
  then have "StopContainer_loop (recording server) ident timeout retries i lastErr (s, log0)
      = (lastErr, (s, log0))"
    by (subst loop_recording_unfold) simp
  with "0.prems" have "log = log0" "r = lastErr" by simp_all
  with gt show ?case by (auto intro: stop_trace.exhausted)
next
  case (Suc m)
  then have le: "i \<le> retries" by linarith
  from Suc.hyps(2) have m: "m = nat (retries + 1 - (i + 1))" by linarith
  note IH = Suc.hyps(1)[OF m]
  let ?req = "stop_request timeout retries i"
  obtain a s1 where upd: "UpdateContainerState server ident ?req '''' s = (a, s1)"
    by (cases "UpdateContainerState server ident ?req '''' s")
  show ?case
  proof (cases a)
    case (Inl err)
    let ?res = "if err = ''not found'' then None
        else Some (''failed to stop container '' @ ident @ '', '' @ err)"
    have "StopContainer_loop (recording server) ident timeout retries i lastErr (s, log0)
      = (?res, (s1, log0 @ [Submitted ident ?req '''' (Inl err)]))"
      by (subst loop_recording_unfold) (simp add: le upd Inl)
    with Suc.prems have l: "log = log0 @ [Submitted ident ?req '''' (Inl err)]" and r: "r = ?res"
      by simp_all
    have "stop_trace ident timeout retries i lastErr [Submitted ident ?req '''' (Inl err)] ?res"
      by (rule stop_trace.refused[OF le])
    with l r show ?thesis by simp
  next
    case (Inr op)
    obtain e s2 where w: "Wait server op s1 = (e, s2)" by (cases "Wait server op s1")
    let ?two = "[Submitted ident ?req '''' (Inr op), Awaited op e]"
    show ?thesis
    proof (cases "e = Some ''The container is already stopped''")
      case True
      have "StopContainer_loop (recording server) ident timeout retries i lastErr (s, log0)
        = (None, (s2, log0 @ ?two))"
        by (subst loop_recording_unfold) (simp add: le upd Inr w True)
      with Suc.prems have l: "log = log0 @ ?two" and r: "r = None" by simp_all
      have "stop_trace ident timeout retries i lastErr
          [Submitted ident ?req '''' (Inr op),
           Awaited op (Some ''The container is already stopped'')] None"
        by (rule stop_trace.stopped[OF le])
      with l r True show ?thesis by simp
    next
      case False
      have "StopContainer_loop (recording server) ident timeout retries i lastErr (s, log0)
        = StopContainer_loop (recording server) ident timeout retries (i + 1) e (s2, log0 @ ?two)"
        by (subst loop_recording_unfold) (simp add: le upd Inr w False)
      with Suc.prems have
        "StopContainer_loop (recording server) ident timeout retries (i + 1) e (s2, log0 @ ?two)
           = (r, (s', log))"
        by simp
      from IH[OF this] obtain new where n: "log = (log0 @ ?two) @ new"
        "stop_trace ident timeout retries (i + 1) e new r"
        by auto
      have "stop_trace ident timeout retries i lastErr (?two @ new) r"
        using stop_trace.again[OF le False n(2), of lastErr op] by simp
      with n(1) show ?thesis by simp
    qed
  qed
qed

lemma StopContainer_trace:
  "StopContainer (recording server) ident timeout retries (s, []) = (r, (s', log))
   \<Longrightarrow> stop_trace ident timeout retries 1 None log r"
  using loop_trace[of server ident timeout retries 1 None s "[]" r s' log]
  by (simp add: StopContainer_def)

lemma trace_requests:
  "stop_trace ident timeout retries i lastErr new r \<Longrightarrow>
   \<exists>n. i - 1 \<le> n \<and> n \<le> max retries (i - 1) \<and>
       requests new = map (\<lambda>k. (ident, stop_request timeout retries k, '''')) [i..n]"
proof (induction rule: stop_trace.induct)
  case (exhausted i lastErr)
  then show ?case by (intro exI[of _ "i - 1"]) simp
next
  case (refused i lastErr err)
  then show ?case by (intro exI[of _ i]) simp
next
  case (stopped i lastErr op)
  then show ?case by (intro exI[of _ i]) simp
next
  case (again i err new r lastErr op)
  then obtain n where "i \<le> n" "n \<le> max retries i"
    "requests new = map (\<lambda>k. (ident, stop_request timeout retries k, '''')) [i + 1..n]"
    by auto
  with again.hyps(1) show ?case
    by (intro exI[of _ n]) (simp add: upto_rec1[of i n])
qed

lemma trace_not_found:
  "stop_trace ident timeout retries i lastErr new r \<Longrightarrow> \<exists>c\<in>set new. not_found c \<Longrightarrow>
   r = None \<and> new \<noteq> [] \<and> not_found (last new) \<and> \<not> (\<exists>c\<in>set (butlast new). not_found c)"
proof (induction rule: stop_trace.induct)
  case (exhausted i lastErr)
  then show ?case by simp
next
  case (refused i lastErr err)
  then show ?case by simp
next
  case (stopped i lastErr op)
  then show ?case by simp
next
  case (again i err new r lastErr op)
  from again.prems have "\<exists>c\<in>set new. not_found c" by simp
  from again.IH[OF this] show ?case by simp
qed

lemma trace_already_stopped:
  "stop_trace ident timeout retries i lastErr new r \<Longrightarrow> \<exists>c\<in>set new. already_stopped c \<Longrightarrow>
   r = None \<and> new \<noteq> [] \<and> already_stopped (last new)
     \<and> \<not> (\<exists>c\<in>set (butlast new). already_stopped c)"
proof (induction rule: stop_trace.induct)
  case (exhausted i lastErr)
  then show ?case by simp
next
  case (refused i lastErr err)
  then show ?case by simp
next
  case (stopped i lastErr op)
  then show ?case by simp
next
  case (again i err new r lastErr op)
  from again.prems again.hyps(2) have "\<exists>c\<in>set new. already_stopped c" by simp
  from again.IH[OF this] again.hyps(2) show ?case by simp
qed

lemma trace_all_failed:
  "stop_trace ident timeout retries i lastErr new r \<Longrightarrow> \<forall>c\<in>set new. failed_attempt c \<Longrightarrow>
   length (outcomes new) = nat (retries + 1 - i) \<and> awaited new = handles new \<and>
   length (requests new) = nat (retries + 1 - i) \<and>
   r = (if i \<le> retries then last (outcomes new) else lastErr)"
proof (induction rule: stop_trace.induct)
  case (exhausted i lastErr)
  then show ?case by simp
next
  case (refused i lastErr err)
  then show ?case by simp
next
  case (stopped i lastErr op)
  then show ?case by simp
next
  case (again i err new r lastErr op)
  from again.prems have "\<forall>c\<in>set new. failed_attempt c" by simp
  from again.IH[OF this] have
    len: "length (outcomes new) = nat (retries + 1 - (i + 1))" and
    ops: "awaited new = handles new" and
    reqs: "length (requests new) = nat (retries + 1 - (i + 1))" and
    res: "r = (if i + 1 \<le> retries then last (outcomes new) else err)"
    by simp_all
  have n: "Suc (nat (retries + 1 - (i + 1))) = nat (retries + 1 - i)"
    using again.hyps(1) by linarith
  have "r = last (err # outcomes new)"
  proof (cases "i + 1 \<le> retries")
    case True
    with len have "outcomes new \<noteq> []" by auto
    with res True show ?thesis by simp
  next
    case False
    with len have "outcomes new = []" by simp
    with res False show ?thesis by simp
  qed
  with len ops reqs n again.hyps(1) show ?case by simp
qed

subsection \<open>Auxiliary facts\<close>

lemma outcomes_awaited:
  "e \<in> set (outcomes log) \<Longrightarrow> \<exists>op. Awaited op e \<in> set log"
  by (induction log rule: outcomes.induct) auto

lemma StopContainer_loop_exhausted:
  "retries < i \<Longrightarrow> StopContainer_loop server ident timeout retries i lastErr s = (lastErr, s)"
  by (subst StopContainer_loop.simps) simp

subsection \<open>Managers that report the state of a container\<close>

lemma reports_stateD1:
  "reports_state server ident down \<Longrightarrow>
   UpdateContainerState server ident req etag s = (Inl ''not found'', s1) \<Longrightarrow> down s1"
  unfolding reports_state_def by blast

lemma reports_stateD2:
  "reports_state server ident down \<Longrightarrow> Action req = ''stop'' \<Longrightarrow>
   UpdateContainerState server ident req etag s = (Inr op, s1) \<Longrightarrow>
   Wait server op s1 = (e, s2) \<Longrightarrow>
   e = None \<or> e = Some ''The container is already stopped'' \<Longrightarrow> down s2"
  unfolding reports_state_def by blast

lemma reports_stateD3:
  "reports_state server ident down \<Longrightarrow> down s \<Longrightarrow> Action req = ''stop'' \<Longrightarrow>
   UpdateContainerState server ident req etag s = (r, s1) \<Longrightarrow>
   (case r of
      Inl err \<Rightarrow> err = ''not found''
    | Inr op \<Rightarrow> fst (Wait server op s1) = Some ''The container is already stopped'')"
  unfolding reports_state_def by blast

lemma loop_leaves_down:
  assumes cons: "reports_state server ident down"
  shows "StopContainer_loop server ident timeout retries i lastErr s = (None, s1) \<Longrightarrow>
         (lastErr = None \<longrightarrow> i \<le> retries \<or> down s) \<Longrightarrow> down s1"
proof (induction "nat (retries + 1 - i)" arbitrary: i lastErr s)
  case 0
  then have gt: "retries < i" by linarith
  with "0.prems"(1) have "lastErr = None" "s1 = s"
    by (simp_all add: StopContainer_loop_exhausted)
  with gt "0.prems"(2) show ?case by simp
next
  case (Suc m)
  then have le: "i \<le> retries" by linarith
  from Suc.hyps(2) have m: "m = nat (retries + 1 - (i + 1))" by linarith
  note IH = Suc.hyps(1)[OF m]
  let ?req = "\<lparr>Action = ''stop'', Timeout = timeout, Force = (i = retries)\<rparr>"
  have act: "Action ?req = ''stop''" by simp
  obtain a s2 where upd: "UpdateContainerState server ident ?req '''' s = (a, s2)"
    by (cases "UpdateContainerState server ident ?req '''' s")
  show ?case
  proof (cases a)
    case (Inl err)
    have "StopContainer_loop server ident timeout retries i lastErr s =
        (if err = ''not found'' then None
         else Some (''failed to stop container '' @ ident @ '', '' @ err), s2)"
      by (subst StopContainer_loop.simps) (simp add: le upd Inl)
    with Suc.prems(1) have "err = ''not found''" "s1 = s2"
      by (simp_all split: if_splits)
    with upd Inl reports_stateD1[OF cons] show ?thesis by simp
  next
    case (Inr op)
    obtain e s3 where w: "Wait server op s2 = (e, s3)" by (cases "Wait server op s2")
    show ?thesis
    proof (cases "e = Some ''The container is already stopped''")
      case True
      have "StopContainer_loop server ident timeout retries i lastErr s = (None, s3)"
        by (subst StopContainer_loop.simps) (simp add: le upd Inr w True)
      with Suc.prems(1) have "s1 = s3" by simp
      with reports_stateD2[OF cons act upd[unfolded Inr] w] True show ?thesis by simp
    next
      case False
      have "StopContainer_loop server ident timeout retries i lastErr s =
          StopContainer_loop server ident timeout retries (i + 1) e s3"
        by (subst StopContainer_loop.simps) (simp add: le upd Inr w False)
      with Suc.prems(1) have
        next_run: "StopContainer_loop server ident timeout retries (i + 1) e s3 = (None, s1)"
        by simp
      have "e = None \<longrightarrow> i + 1 \<le> retries \<or> down s3"
        using reports_stateD2[OF cons act upd[unfolded Inr] w] by simp
      from IH[OF next_run this] show ?thesis .
    qed
  qed
qed

lemma StopContainer_on_down:
  assumes cons: "reports_state server ident down" and "down s"
  shows "fst (StopContainer server ident timeout retries s) = None"
proof (cases "1 \<le> retries")
  case True
  let ?req = "\<lparr>Action = ''stop'', Timeout = timeout, Force = (1 = retries)\<rparr>"
  obtain a s2 where upd: "UpdateContainerState server ident ?req '''' s = (a, s2)"
    by (cases "UpdateContainerState server ident ?req '''' s")
  from reports_stateD3[OF cons assms(2) _ upd]
  have ans: "case a of Inl err \<Rightarrow> err = ''not found''
    | Inr op \<Rightarrow> fst (Wait server op s2) = Some ''The container is already stopped''"
    by simp
  show ?thesis
    unfolding StopContainer_def
    using True upd ans
    by (subst StopContainer_loop.simps) (auto simp: Let_def split: prod.splits sum.splits)
next
  case False
  then show ?thesis by (simp add: StopContainer_def StopContainer_loop_exhausted)
qed

lemma map_of_put_status:
  "map_of (put_status ident c cs) ident = (case map_of cs ident of None \<Rightarrow> None | Some v \<Rightarrow> Some c)"
  by (induction cs) auto

lemma keeping_reports_state: "reports_state keeping ident (at_rest ident)"
  unfolding reports_state_def
proof (intro conjI allI impI)
  fix req etag s s1
  assume "UpdateContainerState keeping ident req etag s = (Inl ''not found'', s1)"
  then show "at_rest ident s1"
    by (auto simp: keeping_def at_rest_def split: option.splits)
next
  fix req etag s op s1 e s2
  assume "Action req = ''stop'' \<and>
        UpdateContainerState keeping ident req etag s = (Inr op, s1) \<and>
        Wait keeping op s1 = (e, s2) \<and>
        (e = None \<or> e = Some ''The container is already stopped'')"
  then have a: "Action req = ''stop''"
    and u: "UpdateContainerState keeping ident req etag s = (Inr op, s1)"
    and w: "Wait keeping op s1 = (e, s2)"
    and e: "e = None \<or> e = Some ''The container is already stopped''"
    by simp_all
  from u obtain c where c: "map_of s ident = Some c" and op: "op = (ident, req)" and s1: "s1 = s"
    by (auto simp: keeping_def split: option.splits)
  from w a c op s1 have "stop_container ident req c s = (e, s2)"
    by (simp add: keeping_def)
  with e c show "at_rest ident s2"
    by (cases c) (auto simp: at_rest_def map_of_put_status split: if_splits)
next
  fix req etag s r s1
  assume "at_rest ident s \<and> Action req = ''stop'' \<and>
        UpdateContainerState keeping ident req etag s = (r, s1)"
  then show "case r of Inl err \<Rightarrow> err = ''not found''
    | Inr op \<Rightarrow> fst (Wait keeping op s1) = Some ''The container is already stopped''"
    by (auto simp: keeping_def at_rest_def split: option.splits sum.splits)
qed

section \<open>What StopContainer guarantees\<close>

text \<open>
  C1. For every container id, every timeout and every \<open>retries \<ge> 1\<close>, \<open>StopContainer\<close>
  submits at most \<open>retries\<close> stop requests. The request of attempt \<open>i\<close> (counted from 1)
  names the given container, has the action \<open>stop\<close>, carries the given timeout and the
  empty ETag, and has \<open>Force\<close> set exactly when \<open>i = retries\<close>: on the final attempt and
  on no earlier one.
\<close>

theorem StopContainer_requests:
  assumes "1 \<le> retries"
    and "StopContainer (recording server) ident timeout retries (s, []) = (r, (s', log))"
  shows "int (length (requests log)) \<le> retries \<and>
         requests log =
           map (\<lambda>i. (ident, \<lparr>Action = ''stop'', Timeout = timeout, Force = (i = retries)\<rparr>, ''''))
             [1..int (length (requests log))]"
proof -
  from StopContainer_trace[OF assms(2)]
  have "stop_trace ident timeout retries 1 None log r" .
  from trace_requests[OF this] obtain n where n: "0 \<le> n" "n \<le> max retries 0"
    and reqs: "requests log = map (\<lambda>k. (ident, stop_request timeout retries k, '''')) [1..n]"
    by auto
  from reqs n(1) have len: "int (length (requests log)) = n" by simp
  from n assms(1) have "n \<le> retries" by simp
  with len reqs show ?thesis by (simp add: stop_request_def)
qed

theorem StopContainer_requests_witness:
  "(1::int) \<le> 3 \<and>
   StopContainer (recording scripted) ''c1'' 5 3
     ([Inr (Some ''timeout''), Inr (Some ''timeout''), Inr None], []) =
   (None, [],
    [Submitted ''c1'' \<lparr>Action = ''stop'', Timeout = 5, Force = False\<rparr> '''' (Inr (Some ''timeout'')),
     Awaited (Some ''timeout'') (Some ''timeout''),
     Submitted ''c1'' \<lparr>Action = ''stop'', Timeout = 5, Force = False\<rparr> '''' (Inr (Some ''timeout'')),
     Awaited (Some ''timeout'') (Some ''timeout''),
     Submitted ''c1'' \<lparr>Action = ''stop'', Timeout = 5, Force = True\<rparr> '''' (Inr None),
     Awaited None None]) \<and>
   requests
    [Submitted ''c1'' \<lparr>Action = ''stop'', Timeout = 5, Force = False\<rparr> '''' (Inr (Some ''timeout'')),
     Awaited (Some ''timeout'') (Some ''timeout''),
     Submitted ''c1'' \<lparr>Action = ''stop'', Timeout = 5, Force = False\<rparr> '''' (Inr (Some ''timeout'')),
     Awaited (Some ''timeout'') (Some ''timeout''),
     Submitted ''c1'' \<lparr>Action = ''stop'', Timeout = 5, Force = True\<rparr> '''' (Inr None),
     Awaited None (None :: error option)] =
    [(''c1'', \<lparr>Action = ''stop'', Timeout = 5, Force = False\<rparr>, ''''),
     (''c1'', \<lparr>Action = ''stop'', Timeout = 5, Force = False\<rparr>, ''''),
     (''c1'', \<lparr>Action = ''stop'', Timeout = 5, Force = True\<rparr>, '''')]"
proof -
  have run: "StopContainer (recording scripted) ''c1'' 5 3
     ([Inr (Some ''timeout''), Inr (Some ''timeout''), Inr None], []) =
   (None, [],
    [Submitted ''c1'' \<lparr>Action = ''stop'', Timeout = 5, Force = False\<rparr> '''' (Inr (Some ''timeout'')),
     Awaited (Some ''timeout'') (Some ''timeout''),
     Submitted ''c1'' \<lparr>Action = ''stop'', Timeout = 5, Force = False\<rparr> '''' (Inr (Some ''timeout'')),
     Awaited (Some ''timeout'') (Some ''timeout''),
     Submitted ''c1'' \<lparr>Action = ''stop'', Timeout = 5, Force = True\<rparr> '''' (Inr None),
     Awaited None None])"
    by (simp add: StopContainer_def StopContainer_loop.simps recording_def scripted_def)
  have "(1::int) \<le> 3" by simp
  from StopContainer_requests[OF this run] run show ?thesis by (simp add: upto.simps)
qed

text \<open>
  C2, as the code has it. When the manager refuses the submission of a stop request with
  the error \<open>not found\<close>, \<open>StopContainer\<close> returns \<open>nil\<close>, and that submission is the
  last call it makes: nothing is submitted or awaited afterwards, and no earlier submission
  was refused that way. This holds at whichever attempt it happens, so also when the
  container vanishes between two attempts.
\<close>

theorem StopContainer_not_found:
  assumes "StopContainer (recording server) ident timeout retries (s, []) = (r, (s', log))"
    and "\<exists>c\<in>set log. not_found c"
  shows "r = None \<and> log \<noteq> [] \<and> not_found (last log) \<and>
         \<not> (\<exists>c\<in>set (butlast log). not_found c)"
  using trace_not_found[OF StopContainer_trace[OF assms(1)] assms(2)] .

theorem StopContainer_not_found_witness:
  "StopContainer (recording scripted) ''c1'' 5 3 ([Inr (Some ''timeout''), Inl ''not found''], []) =
   (None, [],
    [Submitted ''c1'' \<lparr>Action = ''stop'', Timeout = 5, Force = False\<rparr> '''' (Inr (Some ''timeout'')),
     Awaited (Some ''timeout'') (Some ''timeout''),
     Submitted ''c1'' \<lparr>Action = ''stop'', Timeout = 5, Force = False\<rparr> '''' (Inl ''not found'')]) \<and>
   not_found (Submitted ''c1'' \<lparr>Action = ''stop'', Timeout = 5, Force = False\<rparr> ''''
     (Inl ''not found'' :: error + error option)) \<and>
   \<not> not_found (Submitted ''c1'' \<lparr>Action = ''stop'', Timeout = 5, Force = False\<rparr> ''''
     (Inr (Some ''timeout'') :: error + error option)) \<and>
   \<not> not_found (Awaited (Some ''timeout'') (Some ''timeout''))"
proof -
  have run: "StopContainer (recording scripted) ''c1'' 5 3
      ([Inr (Some ''timeout''), Inl ''not found''], []) =
   (None, [],
    [Submitted ''c1'' \<lparr>Action = ''stop'', Timeout = 5, Force = False\<rparr> '''' (Inr (Some ''timeout'')),
     Awaited (Some ''timeout'') (Some ''timeout''),
     Submitted ''c1'' \<lparr>Action = ''stop'', Timeout = 5, Force = False\<rparr> '''' (Inl ''not found'')])"
    by (simp add: StopContainer_def StopContainer_loop.simps recording_def scripted_def)
  from StopContainer_not_found[OF run] run show ?thesis by simp
qed

text \<open>
  C2 as stated speaks of the manager reporting NotFound at any point. The code compares
  the error text with \<open>not found\<close> only after \<open>UpdateContainerState\<close> (line 24); the
  error of \<open>op.Wait()\<close> is compared with \<open>The container is already stopped\<close> alone
  (line 31). A wait that reports \<open>not found\<close> is therefore kept as the last error: with one
  attempt \<open>StopContainer\<close> returns it, and with two attempts the next request is
  submitted all the same and its own failure is what is returned.
\<close>

theorem StopContainer_not_found_counterexample:
  "StopContainer (recording scripted) ''c1'' 5 1 ([Inr (Some ''not found'')], []) =
   (Some ''not found'', [],
    [Submitted ''c1'' \<lparr>Action = ''stop'', Timeout = 5, Force = True\<rparr> '''' (Inr (Some ''not found'')),
     Awaited (Some ''not found'') (Some ''not found'')]) \<and>
   StopContainer (recording scripted) ''c1'' 5 2
     ([Inr (Some ''not found''), Inl ''connection refused''], []) =
   (Some ''failed to stop container c1, connection refused'', [],
    [Submitted ''c1'' \<lparr>Action = ''stop'', Timeout = 5, Force = False\<rparr> '''' (Inr (Some ''not found'')),
     Awaited (Some ''not found'') (Some ''not found''),
     Submitted ''c1'' \<lparr>Action = ''stop'', Timeout = 5, Force = True\<rparr> ''''
       (Inl ''connection refused'')])"
  by (simp add: StopContainer_def StopContainer_loop.simps recording_def scripted_def)

text \<open>
  C3. When the wait of an attempt reports \<open>The container is already stopped\<close>,
  \<open>StopContainer\<close> returns \<open>nil\<close> at once, whichever attempt it is: that wait is the last
  call made, and no earlier wait had reported it.
\<close>

theorem StopContainer_already_stopped:
  assumes "StopContainer (recording server) ident timeout retries (s, []) = (r, (s', log))"
    and "\<exists>c\<in>set log. already_stopped c"
  shows "r = None \<and> log \<noteq> [] \<and> already_stopped (last log) \<and>
         \<not> (\<exists>c\<in>set (butlast log). already_stopped c)"
  using trace_already_stopped[OF StopContainer_trace[OF assms(1)] assms(2)] .

theorem StopContainer_already_stopped_witness:
  "StopContainer (recording scripted) ''c1'' 5 3
     ([Inr (Some ''timeout''), Inr (Some ''The container is already stopped''), Inr None], []) =
   (None, [Inr None],
    [Submitted ''c1'' \<lparr>Action = ''stop'', Timeout = 5, Force = False\<rparr> '''' (Inr (Some ''timeout'')),
     Awaited (Some ''timeout'') (Some ''timeout''),
     Submitted ''c1'' \<lparr>Action = ''stop'', Timeout = 5, Force = False\<rparr> ''''
       (Inr (Some ''The container is already stopped'')),
     Awaited (Some ''The container is already stopped'')
       (Some ''The container is already stopped'')]) \<and>
   already_stopped (Awaited (Some ''The container is already stopped'')
       (Some ''The container is already stopped''))"
proof -
  have run: "StopContainer (recording scripted) ''c1'' 5 3
     ([Inr (Some ''timeout''), Inr (Some ''The container is already stopped''), Inr None], []) =
   (None, [Inr None],
    [Submitted ''c1'' \<lparr>Action = ''stop'', Timeout = 5, Force = False\<rparr> '''' (Inr (Some ''timeout'')),
     Awaited (Some ''timeout'') (Some ''timeout''),
     Submitted ''c1'' \<lparr>Action = ''stop'', Timeout = 5, Force = False\<rparr> ''''
       (Inr (Some ''The container is already stopped'')),
     Awaited (Some ''The container is already stopped'')
       (Some ''The container is already stopped'')])"
    by (simp add: StopContainer_def StopContainer_loop.simps recording_def scripted_def)
  from StopContainer_already_stopped[OF run] run show ?thesis by simp
qed

text \<open>
  C4. Let \<open>retries \<ge> 1\<close>, and let every attempt complete with an error that is neither
  \<open>not found\<close> nor \<open>The container is already stopped\<close> (every submission is accepted and
  every wait answers with such an error). Then all \<open>retries\<close> attempts are made, the
  operation of each is awaited (the handles awaited are the handles given out, in order),
  and the error returned is exactly the error of the last wait.
\<close>

theorem StopContainer_all_failed:
  assumes "1 \<le> retries"
    and "StopContainer (recording server) ident timeout retries (s, []) = (r, (s', log))"
    and "\<forall>c\<in>set log. failed_attempt c"
  shows "length (requests log) = nat retries \<and> awaited log = handles log \<and>
         length (outcomes log) = nat retries \<and> r = last (outcomes log) \<and> r \<noteq> None"
proof -
  from trace_all_failed[OF StopContainer_trace[OF assms(2)] assms(3)] assms(1)
  have *: "length (outcomes log) = nat retries" "awaited log = handles log"
    "length (requests log) = nat retries" "r = last (outcomes log)"
    by simp_all
  from *(1) assms(1) have "outcomes log \<noteq> []" by auto
  then have "last (outcomes log) \<in> set (outcomes log)" by simp
  from outcomes_awaited[OF this] obtain op where "Awaited op (last (outcomes log)) \<in> set log" ..
  with assms(3) have "failed_attempt (Awaited op (last (outcomes log)))" by blast
  then have "last (outcomes log) \<noteq> None" by (cases "last (outcomes log)") simp_all
  with * show ?thesis by simp
qed

theorem StopContainer_all_failed_witness:
  "(1::int) \<le> 2 \<and>
   StopContainer (recording scripted) ''c1'' 5 2
     ([Inr (Some ''timeout''), Inr (Some ''busy'')], []) =
   (Some ''busy'', [],
    [Submitted ''c1'' \<lparr>Action = ''stop'', Timeout = 5, Force = False\<rparr> '''' (Inr (Some ''timeout'')),
     Awaited (Some ''timeout'') (Some ''timeout''),
     Submitted ''c1'' \<lparr>Action = ''stop'', Timeout = 5, Force = True\<rparr> '''' (Inr (Some ''busy'')),
     Awaited (Some ''busy'') (Some ''busy'')]) \<and>
   failed_attempt (Submitted ''c1'' \<lparr>Action = ''stop'', Timeout = 5, Force = False\<rparr> ''''
     (Inr (Some ''timeout'') :: error + error option)) \<and>
   failed_attempt (Awaited (Some ''timeout'') (Some ''timeout'')) \<and>
   failed_attempt (Submitted ''c1'' \<lparr>Action = ''stop'', Timeout = 5, Force = True\<rparr> ''''
     (Inr (Some ''busy'') :: error + error option)) \<and>
   failed_attempt (Awaited (Some ''busy'') (Some ''busy''))"
proof -
  have run: "StopContainer (recording scripted) ''c1'' 5 2
     ([Inr (Some ''timeout''), Inr (Some ''busy'')], []) =
   (Some ''busy'', [],
    [Submitted ''c1'' \<lparr>Action = ''stop'', Timeout = 5, Force = False\<rparr> '''' (Inr (Some ''timeout'')),
     Awaited (Some ''timeout'') (Some ''timeout''),
     Submitted ''c1'' \<lparr>Action = ''stop'', Timeout = 5, Force = True\<rparr> '''' (Inr (Some ''busy'')),
     Awaited (Some ''busy'') (Some ''busy'')])"
    by (simp add: StopContainer_def StopContainer_loop.simps recording_def scripted_def)
  have "(1::int) \<le> 2" by simp
  from StopContainer_all_failed[OF this run] run show ?thesis by simp
qed

text \<open>
  C5, as the code has it. Let the manager report the state of the container consistently,
  let \<open>StopContainer\<close> be called twice in succession on that container, with any timeouts,
  the first time with \<open>retries \<ge> 1\<close>, and let the first call succeed. Then the second call
  returns \<open>nil\<close>, whatever its retry count: the first call left the container stopped or
  absent, and the second meets \<open>not found\<close> or \<open>The container is already stopped\<close>.
\<close>

theorem StopContainer_twice:
  assumes "reports_state server ident down"
    and "1 \<le> retries1"
    and "StopContainer server ident timeout1 retries1 s = (None, s1)"
  shows "fst (StopContainer server ident timeout2 retries2 s1) = None"
proof -
  from assms(3) have "StopContainer_loop server ident timeout1 retries1 1 None s = (None, s1)"
    by (simp add: StopContainer_def)
  from loop_leaves_down[OF assms(1) this] assms(2) have "down s1" by simp
  from StopContainer_on_down[OF assms(1) this] show ?thesis .
qed

theorem StopContainer_twice_witness:
  "reports_state keeping ''c1'' (at_rest ''c1'') \<and> (1::int) \<le> 3 \<and>
   StopContainer keeping ''c1'' 5 3 [(''c1'', Stubborn)] = (None, [(''c1'', Stopped)]) \<and>
   fst (StopContainer keeping ''c1'' 9 2 [(''c1'', Stopped)]) = None"
proof -
  have first: "StopContainer keeping ''c1'' 5 3 [(''c1'', Stubborn)] = (None, [(''c1'', Stopped)])"
    by (simp add: StopContainer_def StopContainer_loop.simps keeping_def)
  have "(1::int) \<le> 3" by simp
  from StopContainer_twice[OF keeping_reports_state this first, of 9 2]
    keeping_reports_state[of "''c1''"] first
  show ?thesis by simp
qed

text \<open>
  C5 as stated promises that the second call never fails once the first succeeded. Two
  runs show what it leaves out. With \<open>retries = 0\<close> the first call succeeds without asking
  the manager anything; the container is still running, it does not stop even when forced,
  and the second call returns the error of its wait (line 37). And whether the second call
  fails is the manager's answer: a first call succeeds, then the management channel
  fails, and the second call surfaces that failure (line 27).
\<close>

theorem StopContainer_twice_counterexample:
  "StopContainer keeping ''c1'' 5 0 [(''c1'', Stuck)] = (None, [(''c1'', Stuck)]) \<and>
   StopContainer keeping ''c1'' 5 1 [(''c1'', Stuck)] =
     (Some ''failed to stop the container'', [(''c1'', Stuck)]) \<and>
   StopContainer scripted ''c1'' 5 1 [Inr None, Inl ''connection refused''] =
     (None, [Inl ''connection refused'']) \<and>
   StopContainer scripted ''c1'' 5 1 [Inl ''connection refused''] =
     (Some ''failed to stop container c1, connection refused'', [])"
  by (simp add: StopContainer_def StopContainer_loop.simps scripted_def keeping_def)

text \<open>
  C10. For every container id and timeout, \<open>StopContainer\<close> with \<open>retries \<le> 0\<close> returns
  \<open>nil\<close> and leaves the manager as it was; observed through the recorder, it makes no
  call at all.
\<close>

theorem StopContainer_without_attempts:
  assumes "retries \<le> 0"
  shows "StopContainer server ident timeout retries s = (None, s) \<and>
         StopContainer (recording server) ident timeout retries (s, []) = (None, (s, []))"
  using assms by (simp add: StopContainer_def StopContainer_loop_exhausted)

theorem StopContainer_without_attempts_witness:
  "(0::int) \<le> 0 \<and>
   StopContainer scripted ''c1'' 5 0 [Inr None] = (None, [Inr None]) \<and>
   StopContainer (recording scripted) ''c1'' 5 0 ([Inr None], []) = (None, ([Inr None], []))"
proof -
  have "(0::int) \<le> 0" by simp
  from StopContainer_without_attempts[OF this, of scripted "''c1''" 5 "[Inr None]"]
  show ?thesis by simp
qed


section \<open>Properties of the network plugin\<close>










text \<open>
  C8. \<open>UpdateRuntimeConfig\<close> of the CNI plugin, which cannot take a pod CIDR at run time,
  returns an error for every argument: for any CIDR text, for \<open>nil\<close> and for the empty
  text.
\<close>

theorem UpdateRuntimeConfig_fails:
  "UpdateRuntimeConfig p podCIDR \<noteq> None \<and> UpdateRuntimeConfig p None \<noteq> None \<and>
   UpdateRuntimeConfig p (Some []) \<noteq> None"
  by (simp add: UpdateRuntimeConfig_def)

text \<open>
  C9. For every pod ID, the runtime-conf template that \<open>getCNIRuntimeConf\<close> builds, and
  that \<open>PodNetwork\<close> caches when no extra arguments are supplied, has the pod ID as its
  container ID, the interface name \<open>eth0\<close>, an empty network-namespace path and an empty
  list of extra arguments.
\<close>

theorem getCNIRuntimeConf_template:
  "getCNIRuntimeConf p podID =
     \<lparr>ContainerID = podID, NetNS = '''', IfName = ''eth0'', Args = []\<rparr> \<and>
   PodNetwork (Inr resolved) p podID [] =
     Inr \<lparr>plugin = p, netList = Some resolved,
          runtimeConf = \<lparr>ContainerID = podID, NetNS = '''', IfName = ''eth0'', Args = []\<rparr>\<rparr>"
  by (simp add: getCNIRuntimeConf_def PodNetwork_def DefaultInterface_def)


end
